theory Spec2Isabelle
  imports Complex_Main "HOL-Library.Sublist" "HOL-Library.Multiset" "HOL-Library.AList"
begin

section \<open>Safe Space: the fusion logic and the serial helpers of SafeSpace_final.py\<close>

text \<open>
  Conventions of the embedding.
  \<^item> A Python \<open>str\<close> is a \<open>string\<close> holding its UTF-8 bytes; the pictographs of the
    source's messages are written out as their bytes.
  \<^item> A Python \<open>float\<close> is a \<open>real\<close>: rounding, infinities and NaN are not represented,
    so every arithmetic statement below is about the exact value of the expression.
  \<^item> What the operating system, pyserial, \<open>json\<close> and the clock answer is an argument of
    the function that asks.
\<close>

subsection \<open>Strings\<close>

text \<open>\<open>str.lower()\<close>: the letters A to Z are mapped to a to z. No character outside
  ASCII lowercases to a letter of \<open>error\<close> or \<open>stressed\<close>, so the two tests of
  \<open>get_stress_confidence\<close> see the same answer on bytes as on code points.\<close>

definition lower_char :: "char \<Rightarrow> char" where
  "lower_char c =
     (case map_of (zip ''ABCDEFGHIJKLMNOPQRSTUVWXYZ'' ''abcdefghijklmnopqrstuvwxyz'') c of
        None \<Rightarrow> c
      | Some d \<Rightarrow> d)"

definition lower :: "string \<Rightarrow> string" where
  "lower s = map lower_char s"

text \<open>\<open>sub in s\<close> on strings is the substring test, \<^const>\<open>sublist\<close>.\<close>

definition no_entry_sign :: string where
  "no_entry_sign = [CHR 0xF0, CHR 0x9F, CHR 0x9A, CHR 0xAB]"

definition camera_flash :: string where
  "camera_flash = [CHR 0xF0, CHR 0x9F, CHR 0x93, CHR 0xB8]"

definition studio_microphone :: string where
  "studio_microphone = [CHR 0xF0, CHR 0x9F, CHR 0x8E, CHR 0x99, CHR 0xEF, CHR 0xB8, CHR 0x8F]"

definition memo_sign :: string where
  "memo_sign = [CHR 0xF0, CHR 0x9F, CHR 0x93, CHR 0x9D]"

definition police_light :: string where
  "police_light = [CHR 0xF0, CHR 0x9F, CHR 0x9A, CHR 0xA8]"

definition hourglass :: string where
  "hourglass = [CHR 0xE2, CHR 0x8F, CHR 0xB3]"

definition warning_sign :: string where
  "warning_sign = [CHR 0xE2, CHR 0x9A, CHR 0xA0, CHR 0xEF, CHR 0xB8, CHR 0x8F]"

definition check_mark :: string where
  "check_mark = [CHR 0xE2, CHR 0x9C, CHR 0x85]"

definition cross_mark :: string where
  "cross_mark = [CHR 0xE2, CHR 0x9D, CHR 0x8C]"

subsection \<open>What a classifier hands to the fusion\<close>

text \<open>The second component of a classifier's result, as \<open>float()\<close> sees it: a number, or
  an object on which \<open>float()\<close> raises \<open>ValueError\<close> or \<open>TypeError\<close>.\<close>

datatype py_value = PyFloat real | NotFloat

datatype py_error = ValueError | TypeError

fun py_float :: "py_value \<Rightarrow> py_error + real" where
  "py_float (PyFloat c) = Inr c"
| "py_float NotFloat = Inl TypeError"

text \<open>The return statements of \<open>predict_facial\<close>, \<open>predict_audio\<close>, \<open>predict_dass21\<close>
  and \<open>predict_physio_from_line\<close> taken when the classifier did not run; the string
  argument is \<open>str(e)\<close>, or \<open>type(e).__name__\<close>, of the exception caught.\<close>

datatype unavailable =
    Facial_model_not_loaded | No_facial_image | Facial_processing_error string
  | Audio_model_not_loaded | No_audio_file | Audio_processing_error string
  | Dass21_not_loaded | Dass21_unanswered | Dass21_input_error string
  | Physio_not_loaded | Physio_no_data | Physio_format_error string | Physio_prediction_error

fun unavailable_label :: "unavailable \<Rightarrow> string" where
  "unavailable_label Facial_model_not_loaded = ''Error: Facial model not loaded. '' @ no_entry_sign"
| "unavailable_label No_facial_image = ''Error: No facial image provided. '' @ camera_flash"
| "unavailable_label (Facial_processing_error e) =
     ''Error processing facial image: '' @ e @ '' '' @ police_light"
| "unavailable_label Audio_model_not_loaded = ''Error: Audio model not loaded. '' @ no_entry_sign"
| "unavailable_label No_audio_file = ''Error: No audio file provided. '' @ studio_microphone"
| "unavailable_label (Audio_processing_error e) =
     ''Error processing audio: '' @ e @ '' '' @ police_light"
| "unavailable_label Dass21_not_loaded =
     ''Error: DASS-21 model/scaler not loaded. '' @ no_entry_sign"
| "unavailable_label Dass21_unanswered =
     ''Error: All 21 DASS-21 questions must be answered. '' @ memo_sign"
| "unavailable_label (Dass21_input_error e) =
     ''Error with DASS-21 input: '' @ e @ '' '' @ police_light"
| "unavailable_label Physio_not_loaded =
     ''Error: Physio model/scaler not loaded. '' @ no_entry_sign"
| "unavailable_label Physio_no_data = ''Physio: No data available from ESP32. '' @ hourglass"
| "unavailable_label (Physio_format_error n) =
     ''Physio: Data format error ('' @ n @ ''). '' @ warning_sign"
| "unavailable_label Physio_prediction_error = ''Physio: Prediction error. '' @ police_light"

text \<open>Each of these returns carries the confidence \<open>0.5\<close>.\<close>

definition unavailable_result :: "unavailable \<Rightarrow> string \<times> py_value" where
  "unavailable_result u = (unavailable_label u, PyFloat 0.5)"

subsection \<open>\<open>get_stress_confidence\<close>\<close>

definition get_stress_confidence :: "string \<Rightarrow> py_value \<Rightarrow> real" where
  "get_stress_confidence label confidence =
     (if sublist ''error'' (lower label) then 0.5
      else if lower label = ''stressed''
        then (case py_float confidence of Inr c \<Rightarrow> c | Inl _ \<Rightarrow> 0.5)
        else (case py_float confidence of Inr c \<Rightarrow> 1.0 - c | Inl _ \<Rightarrow> 0.5))"

subsection \<open>\<open>agreement_fusion\<close>\<close>


subsection \<open>\<open>auto_detect_esp32_port\<close>\<close>

text \<open>The function is a generator. A run of it is the list of what it does, in program
  order, together with the value of its \<open>return\<close> statement: a generator hands that
  value to \<open>StopIteration\<close>, not to the consumer, which sees the yielded tuples only.\<close>

type_synonym event = "string \<times> string option"

datatype step = Yield event | Serial_open string | Serial_close string

record generator_run =
  steps :: "step list"
  return_value :: "event option"

text \<open>What lines 102 to 105 meet on one port: \<open>serial.Serial(...)\<close> raises; the port
  opens and \<open>write\<close> raises; the port opens and \<open>readline()\<close> or \<open>decode('utf-8')\<close>
  raises; or the three calls return and \<open>response\<close> is the decoded, stripped line (empty
  when the read timed out). \<open>time.sleep\<close> and \<open>close()\<close> return.\<close>

datatype handshake = Open_raises | Write_raises | Readline_raises | Response string

definition msg_testing :: "string \<Rightarrow> string" where
  "msg_testing port = ''Testing port: '' @ port @ ''...''"

definition msg_found :: "string \<Rightarrow> string" where
  "msg_found port = check_mark @ '' ESP32 found on '' @ port @ ''!''"

definition msg_error :: "string \<Rightarrow> string" where
  "msg_error port = ''Error on '' @ port @ ''. Skipping.''"

definition msg_failed :: string where
  "msg_failed = cross_mark @ '' Auto-detection failed. Please select the port manually.''"

definition msg_no_ports :: string where
  "msg_no_ports = ''No serial ports found.''"

text \<open>The \<open>for\<close> loop of lines 99 to 113 and the \<open>yield\<close> of line 115 after it.\<close>

fun probe_ports :: "(string \<Rightarrow> handshake) \<Rightarrow> string list \<Rightarrow> step list" where
  "probe_ports serial [] = [Yield (msg_failed, None)]"
| "probe_ports serial (port # ports) =
     Yield (msg_testing port, None) #
     (case serial port of
        Open_raises \<Rightarrow> Yield (msg_error port, None) # probe_ports serial ports
      | Write_raises \<Rightarrow>
          Serial_open port # Yield (msg_error port, None) # probe_ports serial ports
      | Readline_raises \<Rightarrow>
          Serial_open port # Yield (msg_error port, None) # probe_ports serial ports
      | Response response \<Rightarrow>
          Serial_open port # Serial_close port #
          (if response = ''PONG'' then [Yield (msg_found port, Some port)]
           else probe_ports serial ports))"

text \<open>\<open>ports\<close> is what \<open>list_serial_ports()\<close> returned.\<close>

definition auto_detect_esp32_port :: "(string \<Rightarrow> handshake) \<Rightarrow> string list \<Rightarrow> generator_run" where
  "auto_detect_esp32_port serial ports =
     (if ports = [] then \<lparr>steps = [], return_value = Some (msg_no_ports, None)\<rparr>
      else \<lparr>steps = probe_ports serial ports, return_value = None\<rparr>)"

text \<open>What a consumer iterating the generator receives.\<close>

fun yielded :: "step list \<Rightarrow> event list" where
  "yielded [] = []"
| "yielded (Yield e # tr) = e # yielded tr"
| "yielded (Serial_open p # tr) = yielded tr"
| "yielded (Serial_close p # tr) = yielded tr"

text \<open>The ports opened and not closed again, after the steps \<open>tr\<close>, starting from the
  ports \<open>opened\<close>.\<close>

fun still_open :: "string list \<Rightarrow> step list \<Rightarrow> string list" where
  "still_open opened [] = opened"
| "still_open opened (Yield e # tr) = still_open opened tr"
| "still_open opened (Serial_open p # tr) = still_open (opened @ [p]) tr"
| "still_open opened (Serial_close p # tr) = still_open (remove1 p opened) tr"

subsection \<open>\<open>scan_bt_data\<close>\<close>

text \<open>The three globals of the module. \<open>sensor_log\<close> is a \<open>dict\<close>: an association list
  in insertion order, where \<open>d[k] = v\<close> is \<^const>\<open>AList.update\<close> (the value of a key
  already there is replaced in place, a new key goes to the end). \<open>'j\<close> is the type of
  what \<open>json.loads\<close> returns.\<close>

record serial_port =
  port_name :: string
  is_open :: bool

record 'j globals =
  sensor_log :: "(string \<times> 'j) list"
  latest_line :: string
  bt_serial :: "serial_port option"

text \<open>\<open>line\<close> of line 185 (read, decoded with \<open>errors='replace'\<close>, stripped), or the
  exception raised on the way; and the three ways \<open>json.loads\<close> can end.\<close>

datatype 'a outcome = Returns 'a | Raises string

datatype 'j loads_outcome = Parsed 'j | JSONDecodeError | Other_exception string

definition msg_not_connected :: string where
  "msg_not_connected = ''Bluetooth not connected. Select a port first. '' @ no_entry_sign"

definition msg_no_new_data :: string where
  "msg_no_new_data =
     ''No new data received from ESP32. (Check connection/transmission) '' @ hourglass"

definition msg_data :: "string \<Rightarrow> string \<Rightarrow> string" where
  "msg_data timestamp line =
     ''Time: '' @ timestamp @ [CHR 0x0A] @ ''Data: '' @ line @ '' '' @ check_mark"

definition msg_invalid :: "string \<Rightarrow> string \<Rightarrow> string" where
  "msg_invalid timestamp line =
     ''Time: '' @ timestamp @ [CHR 0x0A] @ ''Invalid Data Format: '' @ line @ '' '' @ warning_sign"

definition msg_read_error :: "string \<Rightarrow> string" where
  "msg_read_error e = ''Error reading from Bluetooth: '' @ e @ '' '' @ cross_mark"

text \<open>\<open>loads\<close> is \<open>json.loads\<close>, \<open>now\<close> is
  \<open>datetime.now().strftime("%Y-%m-%d %H:%M:%S")\<close> at the one place the taken path
  evaluates it. The result is the returned pair and the globals afterwards.\<close>

definition scan_bt_data ::
  "'j globals \<Rightarrow> string outcome \<Rightarrow> (string \<Rightarrow> 'j loads_outcome) \<Rightarrow> string
     \<Rightarrow> (string \<times> (string \<times> 'j) list) \<times> 'j globals" where
  "scan_bt_data g readline loads now =
     (case bt_serial g of
        None \<Rightarrow> ((msg_not_connected, sensor_log g), g)
      | Some ser \<Rightarrow>
          if \<not> is_open ser then ((msg_not_connected, sensor_log g), g)
          else
            (case readline of
               Raises e \<Rightarrow> ((msg_read_error e, sensor_log g), g)
             | Returns line \<Rightarrow>
                 if line = [] then ((msg_no_new_data, sensor_log g), g)
                 else
                   (case loads line of
                      Parsed parsed_data \<Rightarrow>
                        (let g' = g\<lparr>sensor_log := AList.update now parsed_data (sensor_log g),
                                      latest_line := line\<rparr>
                         in ((msg_data now line, sensor_log g'), g'))
                    | JSONDecodeError \<Rightarrow> ((msg_invalid now line, sensor_log g), g)
                    | Other_exception e \<Rightarrow> ((msg_read_error e, sensor_log g), g))))"


subsection \<open>Scenarios\<close>

text \<open>Concrete surroundings on which the properties below are evaluated: three ways the
  ports \<open>A\<close>, \<open>B\<close> and \<open>C\<close> can behave, a stand-in for \<open>json.loads\<close> that accepts the
  documents \<open>1\<close> and \<open>2\<close> and rejects every other line, and the globals after a
  successful \<open>connect_to_port\<close> with nothing read yet.\<close>

definition other_device_on_A :: "string \<Rightarrow> handshake" where
  "other_device_on_A port =
     (if port = ''B'' then Response ''PONG'' else Response ''HELLO'')"

definition busy_A :: "string \<Rightarrow> handshake" where
  "busy_A port =
     (if port = ''A'' then Open_raises
      else if port = ''B'' then Response ''PONG''
      else Response ''HELLO'')"

definition write_timeout_on_A :: "string \<Rightarrow> handshake" where
  "write_timeout_on_A port =
     (if port = ''A'' then Write_raises
      else if port = ''B'' then Response ''PONG''
      else Response ''HELLO'')"

definition digit_loads :: "string \<Rightarrow> nat loads_outcome" where
  "digit_loads line =
     (if line = ''1'' then Parsed 1 else if line = ''2'' then Parsed 2 else JSONDecodeError)"

definition connected :: "nat globals" where
  "connected = \<lparr>sensor_log = [], latest_line = [],
                 bt_serial = Some \<lparr>port_name = ''COM3'', is_open = True\<rparr>\<rparr>"

section \<open>Properties\<close>

subsection \<open>The confidence normalizer\<close>

lemma lower_Cons: "lower (c # cs) = lower_char c # lower cs"
  by (simp add: lower_def)

lemma lower_Nil: "lower [] = []"
  by (simp add: lower_def)

lemma lower_Stressed: "lower ''Stressed'' = ''stressed''"
  by (simp add: lower_Cons lower_Nil lower_char_def)

lemma lower_Not_Stressed: "lower ''Not Stressed'' = ''not stressed''"
  by (simp add: lower_Cons lower_Nil lower_char_def)

text \<open>Every label of a classifier that did not run contains \<open>error\<close> once lowercased,
  but the one of \<open>predict_physio_from_line\<close> for an empty line.\<close>

lemma unavailable_label_error:
  "u \<noteq> Physio_no_data \<Longrightarrow> sublist ''error'' (lower (unavailable_label u))"
  by (cases u) (simp_all add: lower_Cons lower_char_def sublist_Cons_right)

lemma no_data_label_no_error:
  "\<not> sublist ''error'' (lower (unavailable_label Physio_no_data))"
  by (simp add: lower_Cons lower_Nil lower_char_def sublist_Cons_right hourglass_def)

lemma no_data_label_not_stressed:
  "lower (unavailable_label Physio_no_data) \<noteq> ''stressed''"
  by (simp add: lower_Cons lower_char_def)

text \<open>C4. A label that marks a classifier as unavailable gives 0.5: every label with
  \<open>error\<close> in it, whatever the confidence, and every result a classifier returns when it
  did not run (the no-data result of the physiological classifier reaches 0.5 as
  \<open>1 - 0.5\<close>). The label \<open>Stressed\<close> gives the confidence unchanged, the label
  \<open>Not Stressed\<close> gives one minus the confidence.\<close>

theorem get_stress_confidence_cases:
  "(sublist ''error'' (lower label) \<longrightarrow> get_stress_confidence label confidence = 0.5)
   \<and> (case unavailable_result u of (l, c) \<Rightarrow> get_stress_confidence l c) = 0.5
   \<and> get_stress_confidence ''Stressed'' (PyFloat c) = c
   \<and> get_stress_confidence ''Not Stressed'' (PyFloat c) = 1 - c"
proof (intro conjI impI)
  show "get_stress_confidence label confidence = 0.5" if "sublist ''error'' (lower label)"
    using that by (simp add: get_stress_confidence_def)
  show "(case unavailable_result u of (l, c) \<Rightarrow> get_stress_confidence l c) = 0.5"
  proof (cases "u = Physio_no_data")
    case True
    then show ?thesis
      using no_data_label_no_error no_data_label_not_stressed
      by (simp add: unavailable_result_def get_stress_confidence_def)
  next
    case False
    then show ?thesis
      using unavailable_label_error [of u]
      by (simp add: unavailable_result_def get_stress_confidence_def)
  qed
  show "get_stress_confidence ''Stressed'' (PyFloat c) = c"
    by (simp add: get_stress_confidence_def lower_Stressed sublist_Cons_right)
  show "get_stress_confidence ''Not Stressed'' (PyFloat c) = 1 - c"
    by (simp add: get_stress_confidence_def lower_Not_Stressed sublist_Cons_right)
qed

theorem get_stress_confidence_cases_witness:
  "sublist ''error'' (lower ''Physio: Prediction error.'')
   \<and> get_stress_confidence ''Physio: Prediction error.'' (PyFloat 0.9) = 0.5
   \<and> get_stress_confidence (unavailable_label Physio_no_data) (PyFloat 0.5) = 0.5
   \<and> get_stress_confidence ''Stressed'' (PyFloat 0.8) = 0.8
   \<and> get_stress_confidence ''Not Stressed'' (PyFloat 0.8) = 0.2"
proof -
  have e: "sublist ''error'' (lower ''Physio: Prediction error.'')"
    by (simp add: lower_Cons lower_Nil lower_char_def sublist_Cons_right)
  show ?thesis
    using e get_stress_confidence_cases
            [of "''Physio: Prediction error.''" "PyFloat 0.9" Physio_no_data "0.8"]
    by (simp add: unavailable_result_def)
qed

text \<open>C5, as the code has it. The claim drops the bound on the confidence; the function
  has no clamp, so a confidence above 1 comes back as it is under the label
  \<open>Stressed\<close>.\<close>

theorem get_stress_confidence_out_of_range:
  "get_stress_confidence ''Stressed'' (PyFloat 1.5) = 1.5
   \<and> \<not> get_stress_confidence ''Stressed'' (PyFloat 1.5) \<le> 1"
  by (simp add: get_stress_confidence_def lower_Stressed sublist_Cons_right)

text \<open>C5, amended. For a confidence in [0,1], or one that \<open>float()\<close> rejects, the result
  lies in [0,1] under every label; and a label with \<open>error\<close> in it gives exactly 0.5
  whatever the confidence.\<close>

theorem get_stress_confidence_in_unit_interval:
  "(0 \<le> c \<and> c \<le> 1
      \<longrightarrow> 0 \<le> get_stress_confidence label (PyFloat c)
          \<and> get_stress_confidence label (PyFloat c) \<le> 1)
   \<and> 0 \<le> get_stress_confidence label NotFloat
   \<and> get_stress_confidence label NotFloat \<le> 1
   \<and> (sublist ''error'' (lower label) \<longrightarrow> get_stress_confidence label other = 0.5)"
  by (simp add: get_stress_confidence_def)

theorem get_stress_confidence_in_unit_interval_witness:
  "(0::real) \<le> 0.3 \<and> (0.3::real) \<le> 1
   \<and> 0 \<le> get_stress_confidence ''Not Stressed'' (PyFloat 0.3)
   \<and> get_stress_confidence ''Not Stressed'' (PyFloat 0.3) \<le> 1
   \<and> sublist ''error'' (lower ''Error: X'')
   \<and> get_stress_confidence ''Error: X'' (PyFloat 7) = 0.5"
proof -
  have e: "sublist ''error'' (lower ''Error: X'')"
    by (simp add: lower_Cons lower_Nil lower_char_def sublist_Cons_right)
  have "0 \<le> get_stress_confidence ''Not Stressed'' (PyFloat 0.3)
        \<and> get_stress_confidence ''Not Stressed'' (PyFloat 0.3) \<le> 1"
    using get_stress_confidence_in_unit_interval [of "0.3" "''Not Stressed''"]
    by simp
  moreover have "get_stress_confidence ''Error: X'' (PyFloat 7) = 0.5"
    using e get_stress_confidence_in_unit_interval [of 0 "''Error: X''" "PyFloat 7"]
    by simp
  ultimately show ?thesis
    using e by simp
qed

text \<open>C10. A label without \<open>error\<close> in its lowercase form, and whose lowercase form
  is not \<open>stressed\<close>, is handled as not stressed: the result is one minus the
  confidence.\<close>

theorem get_stress_confidence_other_label:
  "\<not> sublist ''error'' (lower label) \<Longrightarrow> lower label \<noteq> ''stressed''
     \<Longrightarrow> get_stress_confidence label (PyFloat c) = 1 - c"
  by (simp add: get_stress_confidence_def)

text \<open>The no-data label of the physiological classifier is such a label.\<close>

theorem get_stress_confidence_other_label_witness:
  "\<not> sublist ''error'' (lower (unavailable_label Physio_no_data))
   \<and> lower (unavailable_label Physio_no_data) \<noteq> ''stressed''
   \<and> get_stress_confidence (unavailable_label Physio_no_data) (PyFloat 0.25) = 0.75"
  using no_data_label_no_error no_data_label_not_stressed
        get_stress_confidence_other_label
          [OF no_data_label_no_error no_data_label_not_stressed, of "0.25"]
  by simp

subsection \<open>The agreement fusion\<close>













subsection \<open>The discovery\<close>

lemmas msg_defs = msg_testing_def msg_found_def msg_error_def msg_failed_def msg_no_ports_def

text \<open>C1, as the code has it. Port \<open>A\<close> opens and answers \<open>HELLO\<close>, port \<open>B\<close> answers
  \<open>PONG\<close>: the consumer receives the announcement of \<open>A\<close>, the announcement of \<open>B\<close> and
  the success on \<open>B\<close>, and no error or skip event for \<open>A\<close>.\<close>

theorem discovery_silent_skip_counterexample:
  "yielded (steps (auto_detect_esp32_port other_device_on_A [''A'', ''B'', ''C'']))
     = [(msg_testing ''A'', None), (msg_testing ''B'', None), (msg_found ''B'', Some ''B'')]
   \<and> (msg_error ''A'', None)
       \<notin> set (yielded (steps (auto_detect_esp32_port other_device_on_A [''A'', ''B'', ''C''])))"
  by (simp add: auto_detect_esp32_port_def other_device_on_A_def msg_defs)

lemma probe_ports_until_pong:
  assumes "\<forall>q \<in> set pre. serial q \<noteq> Response ''PONG''"
    and "serial p = Response ''PONG''"
  shows "yielded (probe_ports serial (pre @ p # rest))
           = concat (map (\<lambda>q. (msg_testing q, None) #
                               (case serial q of Response r \<Rightarrow> [] | _ \<Rightarrow> [(msg_error q, None)])) pre)
             @ [(msg_testing p, None), (msg_found p, Some p)]"
  using assms
proof (induction pre)
  case Nil
  then show ?case by simp
next
  case (Cons q pre)
  then show ?case
    by (cases "serial q") simp_all
qed

lemma probe_ports_stops_at_pong:
  assumes "serial p = Response ''PONG''"
  shows "probe_ports serial (pre @ p # rest) = probe_ports serial (pre @ [p])"
  using assms
proof (induction pre)
  case Nil
  then show ?case by simp
next
  case (Cons q pre)
  then show ?case
    by (cases "serial q") simp_all
qed

text \<open>C1, amended. Let \<open>p\<close> be the first port of the list that answers \<open>PONG\<close>. Every port
  before it is announced, and the announcement is followed by an error event exactly when
  the probe of that port raised (on open, write or read), and by nothing when the port
  opened and answered something else. Then \<open>p\<close> is announced, the success event carries
  \<open>p\<close>, and the run ends: it is the run over the list cut after \<open>p\<close>, so no later port is
  probed.\<close>

theorem discovery_events_until_pong:
  assumes "\<forall>q \<in> set pre. serial q \<noteq> Response ''PONG''"
    and "serial p = Response ''PONG''"
  shows "yielded (steps (auto_detect_esp32_port serial (pre @ p # rest)))
           = concat (map (\<lambda>q. (msg_testing q, None) #
                               (case serial q of Response r \<Rightarrow> [] | _ \<Rightarrow> [(msg_error q, None)])) pre)
             @ [(msg_testing p, None), (msg_found p, Some p)]
         \<and> auto_detect_esp32_port serial (pre @ p # rest)
             = auto_detect_esp32_port serial (pre @ [p])"
  using probe_ports_until_pong [OF assms, of rest]
        probe_ports_stops_at_pong [of serial p pre rest] assms(2)
  by (simp add: auto_detect_esp32_port_def)

theorem discovery_events_until_pong_witness:
  "busy_A ''A'' \<noteq> Response ''PONG''
   \<and> busy_A ''B'' = Response ''PONG''
   \<and> yielded (steps (auto_detect_esp32_port busy_A [''A'', ''B'', ''C'']))
       = [(msg_testing ''A'', None), (msg_error ''A'', None),
          (msg_testing ''B'', None), (msg_found ''B'', Some ''B'')]"
proof -
  have h1: "\<forall>q \<in> set [''A'']. busy_A q \<noteq> Response ''PONG''"
    by (simp add: busy_A_def)
  have h2: "busy_A ''B'' = Response ''PONG''"
    by (simp add: busy_A_def)
  have "yielded (steps (auto_detect_esp32_port busy_A ([''A''] @ ''B'' # [''C''])))
          = [(msg_testing ''A'', None), (msg_error ''A'', None),
             (msg_testing ''B'', None), (msg_found ''B'', Some ''B'')]"
    by (subst discovery_events_until_pong [OF h1 h2, of "[''C'']", THEN conjunct1])
       (simp add: busy_A_def)
  then show ?thesis
    using h1 h2 by simp
qed

text \<open>C2, on the code. With no port in the list the generator yields nothing: the
  message of line 97 is the value of a \<open>return\<close>, which an iteration does not see.\<close>

theorem discovery_no_ports_yields_nothing:
  "auto_detect_esp32_port serial []
     = \<lparr>steps = [], return_value = Some (msg_no_ports, None)\<rparr>
   \<and> yielded (steps (auto_detect_esp32_port serial [])) = []"
  by (simp add: auto_detect_esp32_port_def)

text \<open>C3, on the code. Port \<open>A\<close> opens and the write on it raises: the handler yields the
  error event and goes on, and \<open>close()\<close> of line 106 is never reached. \<open>A\<close> is open when
  \<open>B\<close> is announced, and still open when the run has ended.\<close>

theorem discovery_leaves_port_open:
  "steps (auto_detect_esp32_port write_timeout_on_A [''A'', ''B''])
     = [Yield (msg_testing ''A'', None), Serial_open ''A'', Yield (msg_error ''A'', None),
        Yield (msg_testing ''B'', None), Serial_open ''B'', Serial_close ''B'',
        Yield (msg_found ''B'', Some ''B'')]
   \<and> still_open []
        [Yield (msg_testing ''A'', None), Serial_open ''A'', Yield (msg_error ''A'', None),
         Yield (msg_testing ''B'', None)] = [''A'']
   \<and> still_open [] (steps (auto_detect_esp32_port write_timeout_on_A [''A'', ''B''])) = [''A'']"
  by (simp add: auto_detect_esp32_port_def write_timeout_on_A_def)

subsection \<open>The device session\<close>

text \<open>C8. With a port bound and open, a line that is not empty and that \<open>json.loads\<close>
  rejects is reported as an invalid data format, and the globals (the sensor log and
  the latest line among them) are what they were.\<close>

theorem scan_bt_data_malformed:
  assumes "bt_serial g = Some ser" and "is_open ser" and "line \<noteq> []"
    and "loads line = JSONDecodeError"
  shows "scan_bt_data g (Returns line) loads now = ((msg_invalid now line, sensor_log g), g)"
  using assms by (simp add: scan_bt_data_def)

theorem scan_bt_data_malformed_witness:
  "bt_serial connected = Some \<lparr>port_name = ''COM3'', is_open = True\<rparr>
   \<and> is_open \<lparr>port_name = ''COM3'', is_open = True\<rparr>
   \<and> ''not json'' \<noteq> []
   \<and> digit_loads ''not json'' = JSONDecodeError
   \<and> scan_bt_data connected (Returns ''not json'') digit_loads ''2024-05-01 10:00:00''
       = ((msg_invalid ''2024-05-01 10:00:00'' ''not json'', []), connected)"
  using scan_bt_data_malformed
          [of connected "\<lparr>port_name = ''COM3'', is_open = True\<rparr>" "''not json''" digit_loads
              "''2024-05-01 10:00:00''"]
  by (simp add: connected_def digit_loads_def)









end
